theory Spec2Isabelle
  imports Complex_Main
begin

section \<open>The Inventory container of Inventory.cpp\<close>

subsection \<open>Data model\<close>

text \<open>
  Modelled from the spec: the \<^verbatim>\<open>Item\<close> value type and its type
  discriminator are declared in a header that is not part of the source. The source
  reads two members of an item, \<^verbatim>\<open>type_\<close> and \<^verbatim>\<open>weight_\<close>, and compares
  the former with the enumerator \<^verbatim>\<open>NONE\<close>; the specification describes the
  discriminator as having one distinguished empty variant. Every other enumerator is
  represented by \<open>Kind k\<close>.
\<close>

datatype ItemType = NONE | Kind nat

text \<open>
  Weights are \<^verbatim>\<open>float\<close> in the source. The type \<open>'f\<close> stands for
  \<^verbatim>\<open>float\<close>, its \<open>+\<close> for the addition that \<^verbatim>\<open>+=\<close> performs on two
  \<^verbatim>\<open>float\<close> values, and its \<open>0\<close> for the value that \<^verbatim>\<open>weight_(0)\<close>
  initialises. Nothing is assumed of them: the classes \<open>plus\<close> and \<open>zero\<close> have no
  laws, so \<open>+\<close> need be neither associative nor commutative nor exact, and a value of
  \<open>'f\<close> may be an infinity or a NaN. What is proved below holds of every such type and
  addition, so of the source's, with its rounding and its overflow.
\<close>

record 'f Item =
  item_type :: ItemType
  item_weight :: 'f

text \<open>
  \<^verbatim>\<open>Item*\<close>: a raw pointer is an address or the null pointer. The free store
  maps the address of every live object created by \<^verbatim>\<open>new\<close> to its value.
\<close>

type_synonym addr = nat
type_synonym Item_ptr = "addr option"
type_synonym 'f free_store = "addr \<rightharpoonup> 'f Item"

abbreviation nullptr :: Item_ptr where
  "nullptr \<equiv> None"

text \<open>
  The data members of an \<^verbatim>\<open>Inventory\<close> object (a name cannot end in an
  underscore here, so \<^verbatim>\<open>weight_\<close> is \<open>weight\<close>, and the two members of an item
  are \<open>item_type\<close> and \<open>item_weight\<close>). \<^verbatim>\<open>item_count_\<close> and
  every index are \<^verbatim>\<open>size_t\<close>; a grid held in memory has fewer cells than
  \<^verbatim>\<open>size_t\<close> has values, so the counter is a natural number.
\<close>

record 'f Inventory =
  inventory_grid :: "'f Item list list"
  equipped :: Item_ptr
  weight :: 'f
  item_count :: nat

text \<open>
  What a call can end in other than a normal return: the exception
  \<^verbatim>\<open>std::out_of_range\<close>, or undefined behaviour (an unchecked subscript out
  of range, \<^verbatim>\<open>delete\<close> of a pointer that refers to no live object).
\<close>

datatype failure = out_of_range | undefined_behaviour

text \<open>
  The state a member function runs in: the object itself and the free store that its
  \<^verbatim>\<open>equipped_\<close> pointer refers into.
\<close>

record 'f world =
  heap :: "'f free_store"
  self :: "'f Inventory"

subsection \<open>The constructor\<close>

text \<open>
  The inner loop of the constructor over row \<open>row\<close>, from column \<open>j\<close> on, with the
  running \<^verbatim>\<open>weight_\<close> and \<^verbatim>\<open>item_count_\<close> as accumulator. The guard
  \<open>j < length row\<close> keeps the subscript in range.
\<close>

function scan_row :: "('f::plus) Item list \<Rightarrow> nat \<Rightarrow> 'f \<times> nat \<Rightarrow> 'f \<times> nat" where
  "scan_row row j (w, c) =
     (if j < length row
      then scan_row row (Suc j)
             (if item_type (row ! j) \<noteq> NONE
              then (w + item_weight (row ! j), Suc c)
              else (w, c))
      else (w, c))"
  by pat_completeness auto
termination
  by (relation "measure (\<lambda>(row, j, acc). length row - j)") auto

text \<open>The outer loop, from row \<open>i\<close> on.\<close>

function scan_grid :: "('f::plus) Item list list \<Rightarrow> nat \<Rightarrow> 'f \<times> nat \<Rightarrow> 'f \<times> nat" where
  "scan_grid items i acc =
     (if i < length items
      then scan_grid items (Suc i) (scan_row (items ! i) 0 acc)
      else acc)"
  by pat_completeness auto
termination
  by (relation "measure (\<lambda>(items, i, acc). length items - i)") auto

definition Inventory_ctor :: "('f::{zero,plus}) Item list list \<Rightarrow> Item_ptr \<Rightarrow> 'f Inventory" where
  "Inventory_ctor items p =
     (case scan_grid items 0 (0, 0) of
        (w, c) \<Rightarrow> \<lparr>inventory_grid = items, equipped = p,
                    weight = w, item_count = c\<rparr>)"

subsection \<open>Member functions\<close>

text \<open>
  A \<^verbatim>\<open>const\<close> member function returns its value together with the state it was
  called in; the others return the new state. A function that can throw, or whose body
  has an operation with undefined behaviour, returns a sum with the failure on the left.
\<close>

definition getEquipped :: "'f world \<Rightarrow> Item_ptr \<times> 'f world" where
  "getEquipped w = (equipped (self w), w)"

definition equip :: "Item_ptr \<Rightarrow> 'f world \<Rightarrow> 'f world" where
  "equip itemToEquip w = w\<lparr>self := (self w)\<lparr>equipped := itemToEquip\<rparr>\<rparr>"

text \<open>
  \<^verbatim>\<open>delete p\<close> for a non-null \<open>p\<close>: the object at \<open>p\<close> leaves the free store;
  when there is no live object at \<open>p\<close> the behaviour is undefined.
\<close>

definition delete_expr :: "addr \<Rightarrow> 'f free_store \<Rightarrow> failure + 'f free_store" where
  "delete_expr a h =
     (case h a of
        None \<Rightarrow> Inl undefined_behaviour
      | Some obj \<Rightarrow> Inr (h(a := None)))"

definition discardEquipped :: "'f world \<Rightarrow> failure + 'f world" where
  "discardEquipped w =
     (case equipped (self w) of
        None \<Rightarrow> Inr w
      | Some a \<Rightarrow>
          (case delete_expr a (heap w) of
             Inl f \<Rightarrow> Inl f
           | Inr h \<Rightarrow> Inr \<lparr>heap = h, self = (self w)\<lparr>equipped := nullptr\<rparr>\<rparr>))"

definition getItems :: "'f world \<Rightarrow> 'f Item list list \<times> 'f world" where
  "getItems w = (inventory_grid (self w), w)"

definition getWeight :: "'f world \<Rightarrow> 'f \<times> 'f world" where
  "getWeight w = (weight (self w), w)"

definition getCount :: "'f world \<Rightarrow> nat \<times> 'f world" where
  "getCount w = (item_count (self w), w)"

text \<open>
  \<^verbatim>\<open>std::vector::operator[]\<close> checks nothing: a subscript out of range is
  undefined behaviour.
\<close>

definition subscript :: "'a list \<Rightarrow> nat \<Rightarrow> failure + 'a" where
  "subscript xs i = (if i < length xs then Inr (xs ! i) else Inl undefined_behaviour)"

text \<open>
  \<^verbatim>\<open>Inventory::at\<close> (the name \<open>at\<close> is taken by the library). The operands of
  \<^verbatim>\<open>||\<close> are evaluated from the left and the right one only when the left one is
  false; each \<^verbatim>\<open>inventory_grid_[row]\<close> is a subscript of the outer vector.
\<close>

definition Inventory_at :: "nat \<Rightarrow> nat \<Rightarrow> 'f world \<Rightarrow> failure + 'f Item \<times> 'f world" where
  "Inventory_at row col w =
     (if row \<ge> length (inventory_grid (self w)) then Inl out_of_range
      else
        (case subscript (inventory_grid (self w)) row of
           Inl f \<Rightarrow> Inl f
         | Inr r \<Rightarrow>
             if col \<ge> length r then Inl out_of_range
             else
               (case subscript (inventory_grid (self w)) row of
                  Inl f \<Rightarrow> Inl f
                | Inr r' \<Rightarrow>
                    (case subscript r' col of
                       Inl f \<Rightarrow> Inl f
                     | Inr it \<Rightarrow> Inr (it, w)))))"

text \<open>
  Modelled from the spec: the body of \<^verbatim>\<open>Inventory::store\<close>, which the source
  cuts off inside the function's documentation comment. By the specification the call
  checks the indices as \<^verbatim>\<open>at\<close> does (of the two policies it leaves open, the
  exception is taken here), returns \<^verbatim>\<open>false\<close> and changes nothing when the cell
  holds an item whose type is not \<^verbatim>\<open>NONE\<close>, and otherwise writes the item into
  the cell, increments \<^verbatim>\<open>item_count_\<close>, adds the item's weight to
  \<^verbatim>\<open>weight_\<close> and returns \<^verbatim>\<open>true\<close>. The part of the documentation
  comment that the source keeps agrees: the function returns false if the cell is already
  occupied, and updates the count and the weight if the item is added. Neither text looks
  at the type of the item passed.
\<close>

definition store :: "nat \<Rightarrow> nat \<Rightarrow> ('f::plus) Item \<Rightarrow> 'f world \<Rightarrow> failure + bool \<times> 'f world" where
  "store row col pickup w =
     (if row \<ge> length (inventory_grid (self w)) then Inl out_of_range
      else if col \<ge> length (inventory_grid (self w) ! row) then Inl out_of_range
      else if item_type (inventory_grid (self w) ! row ! col) \<noteq> NONE then Inr (False, w)
      else Inr (True,
        w\<lparr>self := (self w)
           \<lparr>inventory_grid :=
              (inventory_grid (self w))[row := (inventory_grid (self w) ! row)[col := pickup]],
            weight := weight (self w) + item_weight pickup,
            item_count := item_count (self w) + 1\<rparr>\<rparr>))"

text \<open>
  Modelled from the spec: the default arguments of the constructor, declared in the
  header that is not part of the source. The specification gives a grid of 10 rows of 10
  items of type \<^verbatim>\<open>NONE\<close> and an empty equipped pointer. It does not give the weight
  of such an item, which is the parameter \<open>d\<close>.
\<close>

definition default_Item :: "'f \<Rightarrow> 'f Item" where
  "default_Item d = \<lparr>item_type = NONE, item_weight = d\<rparr>"

definition default_items :: "'f \<Rightarrow> 'f Item list list" where
  "default_items d = replicate 10 (replicate 10 (default_Item d))"

definition Inventory_default :: "('f::{zero,plus}) \<Rightarrow> 'f Inventory" where
  "Inventory_default d = Inventory_ctor (default_items d) nullptr"

text \<open>A cell counts when its item's type is not \<^verbatim>\<open>NONE\<close>.\<close>

definition occupied :: "'f Item \<Rightarrow> bool" where
  "occupied it \<longleftrightarrow> item_type it \<noteq> NONE"

subsection \<open>The vector objects of a caller\<close>

text \<open>
  What a caller has of a \<^verbatim>\<open>std::vector<std::vector<Item>>\<close> is the object it
  names or refers to: the container's own member \<^verbatim>\<open>inventory_grid_\<close>, or one of
  the vector objects that the caller itself holds, numbered in the order of their
  creation.
\<close>

datatype vec_ref = Member | Local nat

text \<open>A program state: the container with its free store, and the caller's vector objects.\<close>

record 'f program =
  container :: "'f world"
  locals :: "'f Item list list list"

text \<open>
  Reading the vector that \<open>r\<close> refers to, and changing it to the value \<open>g\<close> (an
  assignment to it or to an element of it, a \<^verbatim>\<open>push_back\<close>, a
  \<^verbatim>\<open>clear\<close>: \<open>g\<close> is the value of the vector after the change). A change
  through a reference to the member changes the container's grid. A reference to an
  object that was never created is dangling, and its use undefined.
\<close>

fun read_vec :: "vec_ref \<Rightarrow> 'f program \<Rightarrow> failure + 'f Item list list" where
  "read_vec Member s = Inr (inventory_grid (self (container s)))"
| "read_vec (Local n) s = subscript (locals s) n"

fun write_vec :: "vec_ref \<Rightarrow> 'f Item list list \<Rightarrow> 'f program \<Rightarrow> failure + 'f program" where
  "write_vec Member g s =
     Inr (s\<lparr>container :=
            (container s)\<lparr>self := (self (container s))\<lparr>inventory_grid := g\<rparr>\<rparr>\<rparr>)"
| "write_vec (Local n) g s =
     (if n < length (locals s) then Inr (s\<lparr>locals := (locals s)[n := g]\<rparr>)
      else Inl undefined_behaviour)"

text \<open>Any number of changes through the same reference, one after the other.\<close>

fun write_all ::
  "vec_ref \<Rightarrow> 'f Item list list list \<Rightarrow> 'f program \<Rightarrow> failure + 'f program" where
  "write_all r [] s = Inr s"
| "write_all r (g # gs) s =
     (case write_vec r g s of
        Inl f \<Rightarrow> Inl f
      | Inr s' \<Rightarrow> write_all r gs s')"

text \<open>
  A call of \<^verbatim>\<open>getItems\<close> by the caller. The return type is
  \<^verbatim>\<open>std::vector<std::vector<Item>>\<close>, not a reference to one, so the statement
  \<^verbatim>\<open>return inventory_grid_;\<close> initialises a new vector object from the value
  returned, and that new object is what the caller has. (Had the return type been a
  reference, the caller would have \<open>Member\<close>.)
\<close>

definition call_getItems :: "'f program \<Rightarrow> vec_ref \<times> 'f program" where
  "call_getItems s =
     (case getItems (container s) of
        (v, w) \<Rightarrow> (Local (length (locals s)), \<lparr>container = w, locals = locals s @ [v]\<rparr>))"

section \<open>Properties\<close>

subsection \<open>The constructor's loops are a scan of the cells in row-major order\<close>

declare scan_row.simps [simp del] scan_grid.simps [simp del]

text \<open>
  The weight that a loop leaves is the accumulator with the weights of the cells that
  count added to it one by one from the left, in the order of the scan; no law of
  addition is used.
\<close>

lemma scan_row_eq:
  "scan_row row j (w, c) =
     (foldl (+) w (map item_weight (filter occupied (drop j row))),
      c + length (filter occupied (drop j row)))"
proof (induction row j "(w, c)" arbitrary: w c rule: scan_row.induct)
  case (1 row j w c)
  show ?case
  proof (cases "j < length row")
    case True
    then have d: "drop j row = row ! j # drop (Suc j) row"
      by (simp add: Cons_nth_drop_Suc)
    show ?thesis
    proof (cases "item_type (row ! j) \<noteq> NONE")
      case occ: True
      have "scan_row row (Suc j) (w + item_weight (row ! j), Suc c) =
          (foldl (+) (w + item_weight (row ! j))
             (map item_weight (filter occupied (drop (Suc j) row))),
           Suc c + length (filter occupied (drop (Suc j) row)))"
        using True occ by (intro "1.hyps") simp_all
      with True occ show ?thesis
        by (subst scan_row.simps) (simp add: d occupied_def)
    next
      case emp: False
      have "scan_row row (Suc j) (w, c) =
          (foldl (+) w (map item_weight (filter occupied (drop (Suc j) row))),
           c + length (filter occupied (drop (Suc j) row)))"
        using True emp by (intro "1.hyps") simp_all
      with True emp show ?thesis
        by (subst scan_row.simps) (simp add: d occupied_def)
    qed
  next
    case False
    then show ?thesis by (subst scan_row.simps) simp
  qed
qed

lemma scan_grid_eq:
  "scan_grid items i acc =
     (foldl (+) (fst acc) (map item_weight (filter occupied (concat (drop i items)))),
      snd acc + length (filter occupied (concat (drop i items))))"
proof (induction items i acc rule: scan_grid.induct)
  case (1 items i acc)
  show ?case
  proof (cases "i < length items")
    case True
    then have d: "drop i items = items ! i # drop (Suc i) items"
      by (simp add: Cons_nth_drop_Suc)
    obtain w c where acc: "acc = (w, c)" by (cases acc)
    have "scan_grid items i acc = scan_grid items (Suc i) (scan_row (items ! i) 0 acc)"
      using True by (subst scan_grid.simps) simp
    also have "\<dots> =
       (foldl (+) (fst (scan_row (items ! i) 0 acc))
          (map item_weight (filter occupied (concat (drop (Suc i) items)))),
        snd (scan_row (items ! i) 0 acc) +
          length (filter occupied (concat (drop (Suc i) items))))"
      using True by (rule "1.IH")
    also have "\<dots> =
       (foldl (+) (fst acc) (map item_weight (filter occupied (concat (drop i items)))),
        snd acc + length (filter occupied (concat (drop i items))))"
      by (simp add: acc d scan_row_eq)
    finally show ?thesis .
  next
    case False
    then show ?thesis by (subst scan_grid.simps) simp
  qed
qed

lemma Inventory_ctor_eq:
  "Inventory_ctor items p =
     \<lparr>inventory_grid = items, equipped = p,
      weight = foldl (+) 0 (map item_weight (filter occupied (concat items))),
      item_count = length (filter occupied (concat items))\<rparr>"
  by (simp add: Inventory_ctor_def scan_grid_eq)

text \<open>
  The loops themselves, run on a jagged grid with an empty row: the item of type
  \<^verbatim>\<open>NONE\<close> and the equipped item add nothing. (The instance is at the real
  numbers; the weights are values that \<^verbatim>\<open>float\<close> holds and adds exactly.)
\<close>

lemma Inventory_ctor_example:
  "Inventory_ctor
     [[\<lparr>item_type = Kind 1, item_weight = (2::real)\<rparr>, \<lparr>item_type = NONE, item_weight = 7\<rparr>],
      [],
      [\<lparr>item_type = Kind 0, item_weight = 3\<rparr>]] (Some 4) =
   \<lparr>inventory_grid =
      [[\<lparr>item_type = Kind 1, item_weight = 2\<rparr>, \<lparr>item_type = NONE, item_weight = 7\<rparr>],
       [],
       [\<lparr>item_type = Kind 0, item_weight = 3\<rparr>]],
    equipped = Some 4, weight = 5, item_count = 2\<rparr>"
  by (simp add: Inventory_ctor_def scan_grid.simps scan_row.simps)

subsection \<open>The bounds-checked read\<close>

text \<open>What the comparison of the row with the number of rows guards against.\<close>

lemma subscript_unguarded:
  "length xs \<le> i \<Longrightarrow> subscript xs i = Inl undefined_behaviour"
  by (simp add: subscript_def)

lemma Inventory_at_eq:
  "Inventory_at row col w =
     (if row < length (inventory_grid (self w)) \<and>
         col < length (inventory_grid (self w) ! row)
      then Inr (inventory_grid (self w) ! row ! col, w)
      else Inl out_of_range)"
  by (simp add: Inventory_at_def subscript_def)

subsection \<open>References to vectors\<close>

text \<open>
  A change through a reference to the member is seen by the container: the model tells a
  reference from a copy.
\<close>

lemma write_vec_Member:
  "\<exists>s'. write_vec Member g s = Inr s' \<and> inventory_grid (self (container s')) = g"
  by simp

text \<open>Changes to a vector object of the caller's stay in that object.\<close>

lemma write_all_Local:
  assumes "n < length (locals s)"
  shows "\<exists>s'. write_all (Local n) gs s = Inr s' \<and>
     container s' = container s \<and>
     locals s' = (locals s)[n := last (locals s ! n # gs)]"
  using assms
proof (induction gs arbitrary: s)
  case Nil
  then show ?case by simp
next
  case (Cons g gs)
  let ?t = "s\<lparr>locals := (locals s)[n := g]\<rparr>"
  from Cons.prems have n: "n < length (locals ?t)" by simp
  from Cons.IH[OF n] obtain s' where
    w: "write_all (Local n) gs ?t = Inr s'" and
    c: "container s' = container ?t" and
    l: "locals s' = (locals ?t)[n := last (locals ?t ! n # gs)]"
    by blast
  from Cons.prems w have "write_all (Local n) (g # gs) s = Inr s'" by simp
  moreover from c have "container s' = container s" by simp
  moreover from l Cons.prems
  have "locals s' = (locals s)[n := last (locals s ! n # g # gs)]" by simp
  ultimately show ?case by blast
qed

lemma write_vec_Member_example:
  "\<exists>s'. write_vec Member [[\<lparr>item_type = NONE, item_weight = (0::real)\<rparr>]]
       \<lparr>container =
          \<lparr>heap = Map.empty,
           self = \<lparr>inventory_grid = [[\<lparr>item_type = Kind 7, item_weight = 5\<rparr>]],
                    equipped = nullptr, weight = 5, item_count = 1\<rparr>\<rparr>,
        locals = []\<rparr> = Inr s' \<and>
     map_sum id fst (Inventory_at 0 0 (container s')) =
       Inr \<lparr>item_type = NONE, item_weight = 0\<rparr>"
  by (simp add: Inventory_at_eq)

section \<open>The claims\<close>

subsection \<open>C2 and C9: the bounds-checked read\<close>

text \<open>
  C2. For a row below the number of rows and a column below the length of that row,
  \<^verbatim>\<open>at\<close> returns the item of that cell, and the state it returns in is the state it
  was called in; for every other pair of indices it throws \<^verbatim>\<open>std::out_of_range\<close>.
  The exception is thrown exactly when the row is at or beyond the number of rows or the
  column is at or beyond the length of the row.
\<close>

theorem at_bounds_checked:
  "Inventory_at row col w =
     (if row < length (inventory_grid (self w)) \<and>
         col < length (inventory_grid (self w) ! row)
      then Inr (inventory_grid (self w) ! row ! col, w)
      else Inl out_of_range) \<and>
   (Inventory_at row col w = Inl out_of_range \<longleftrightarrow>
      row \<ge> length (inventory_grid (self w)) \<or>
      col \<ge> length (inventory_grid (self w) ! row))"
  by (auto simp: Inventory_at_eq)

text \<open>
  An instance on a jagged grid: cell (1, 0) is read, column 1 is beyond the second row
  (though not beyond the first), and row 5 is beyond the grid.
\<close>

theorem at_bounds_checked_witness:
  "Inventory_at 1 0
     \<lparr>heap = Map.empty,
      self = \<lparr>inventory_grid =
                 [[\<lparr>item_type = NONE, item_weight = (0::real)\<rparr>, \<lparr>item_type = Kind 1, item_weight = (2::real)\<rparr>],
                  [\<lparr>item_type = Kind 2, item_weight = (5::real)\<rparr>]],
               equipped = nullptr, weight = 7, item_count = 2\<rparr>\<rparr> =
     Inr (\<lparr>item_type = Kind 2, item_weight = (5::real)\<rparr>,
       \<lparr>heap = Map.empty,
      self = \<lparr>inventory_grid =
                 [[\<lparr>item_type = NONE, item_weight = (0::real)\<rparr>, \<lparr>item_type = Kind 1, item_weight = (2::real)\<rparr>],
                  [\<lparr>item_type = Kind 2, item_weight = (5::real)\<rparr>]],
               equipped = nullptr, weight = 7, item_count = 2\<rparr>\<rparr>) \<and>
   Inventory_at 1 1
     \<lparr>heap = Map.empty,
      self = \<lparr>inventory_grid =
                 [[\<lparr>item_type = NONE, item_weight = (0::real)\<rparr>, \<lparr>item_type = Kind 1, item_weight = (2::real)\<rparr>],
                  [\<lparr>item_type = Kind 2, item_weight = (5::real)\<rparr>]],
               equipped = nullptr, weight = 7, item_count = 2\<rparr>\<rparr> = Inl out_of_range \<and>
   Inventory_at 5 5
     \<lparr>heap = Map.empty,
      self = \<lparr>inventory_grid =
                 [[\<lparr>item_type = NONE, item_weight = (0::real)\<rparr>, \<lparr>item_type = Kind 1, item_weight = (2::real)\<rparr>],
                  [\<lparr>item_type = Kind 2, item_weight = (5::real)\<rparr>]],
               equipped = nullptr, weight = 7, item_count = 2\<rparr>\<rparr> = Inl out_of_range"
proof -
  let ?w = "\<lparr>heap = Map.empty,
      self = \<lparr>inventory_grid =
                 [[\<lparr>item_type = NONE, item_weight = (0::real)\<rparr>, \<lparr>item_type = Kind 1, item_weight = (2::real)\<rparr>],
                  [\<lparr>item_type = Kind 2, item_weight = (5::real)\<rparr>]],
               equipped = nullptr, weight = 7, item_count = 2\<rparr>\<rparr>"
  from at_bounds_checked[of 1 0 ?w] at_bounds_checked[of 1 1 ?w] at_bounds_checked[of 5 5 ?w]
  show ?thesis by simp
qed

text \<open>
  C9. \<^verbatim>\<open>at\<close> compares the row with the number of rows before it subscripts the
  outer vector, so no call, whatever the row and the column, ends in the undefined
  behaviour of a subscript out of range: a call either throws
  \<^verbatim>\<open>std::out_of_range\<close> or returns the item of the cell.
\<close>

theorem at_never_out_of_range_access:
  "Inventory_at row col w \<noteq> Inl undefined_behaviour \<and>
   (Inventory_at row col w = Inl out_of_range \<or>
    Inventory_at row col w = Inr (inventory_grid (self w) ! row ! col, w))"
  by (simp add: Inventory_at_eq)

text \<open>An instance: a row far beyond the grid.\<close>

theorem at_never_out_of_range_access_witness:
  "Inventory_at 1000 3
     \<lparr>heap = Map.empty,
      self = \<lparr>inventory_grid =
                 [[\<lparr>item_type = NONE, item_weight = (0::real)\<rparr>, \<lparr>item_type = Kind 1, item_weight = (2::real)\<rparr>],
                  [\<lparr>item_type = Kind 2, item_weight = (5::real)\<rparr>]],
               equipped = nullptr, weight = 7, item_count = 2\<rparr>\<rparr> \<noteq> Inl undefined_behaviour"
  by (rule at_never_out_of_range_access[THEN conjunct1])

subsection \<open>C3 and C4: store\<close>

text \<open>
  C3. For a cell in range that holds an item of type \<^verbatim>\<open>NONE\<close>, and for every item,
  \<^verbatim>\<open>store\<close> returns \<^verbatim>\<open>true\<close>, writes the item into the cell, increments the
  count by one and adds the item's weight to the weight; it changes nothing else, and
  \<^verbatim>\<open>at\<close> on that cell then returns the item stored.
\<close>

theorem store_on_empty:
  assumes "row < length (inventory_grid (self w))"
    and "col < length (inventory_grid (self w) ! row)"
    and "item_type (inventory_grid (self w) ! row ! col) = NONE"
  shows "\<exists>w'. store row col pickup w = Inr (True, w') \<and>
     inventory_grid (self w') =
       (inventory_grid (self w))[row := (inventory_grid (self w) ! row)[col := pickup]] \<and>
     item_count (self w') = item_count (self w) + 1 \<and>
     weight (self w') = weight (self w) + item_weight pickup \<and>
     equipped (self w') = equipped (self w) \<and> heap w' = heap w \<and>
     Inventory_at row col w' = Inr (pickup, w')"
  using assms by (simp add: store_def Inventory_at_eq)

text \<open>An instance: an item of weight 5 into cell (0, 0) of an empty grid of two rows of two.\<close>

theorem store_on_empty_witness:
  "store 0 0 \<lparr>item_type = Kind 7, item_weight = (5::real)\<rparr>
     \<lparr>heap = Map.empty,
      self = \<lparr>inventory_grid =
                 [[\<lparr>item_type = NONE, item_weight = (0::real)\<rparr>, \<lparr>item_type = NONE, item_weight = (0::real)\<rparr>],
                  [\<lparr>item_type = NONE, item_weight = (0::real)\<rparr>, \<lparr>item_type = NONE, item_weight = (0::real)\<rparr>]],
               equipped = nullptr, weight = 0, item_count = 0\<rparr>\<rparr> =
   Inr (True,
     \<lparr>heap = Map.empty,
      self = \<lparr>inventory_grid =
                 [[\<lparr>item_type = Kind 7, item_weight = (5::real)\<rparr>, \<lparr>item_type = NONE, item_weight = (0::real)\<rparr>],
                  [\<lparr>item_type = NONE, item_weight = (0::real)\<rparr>, \<lparr>item_type = NONE, item_weight = (0::real)\<rparr>]],
               equipped = nullptr, weight = 5, item_count = 1\<rparr>\<rparr>)"
proof -
  let ?e = "\<lparr>item_type = NONE, item_weight = (0::real)\<rparr>"
  let ?w = "\<lparr>heap = Map.empty,
      self = \<lparr>inventory_grid = [[?e, ?e], [?e, ?e]],
               equipped = nullptr, weight = 0, item_count = 0\<rparr>\<rparr>"
  have r: "0 < length (inventory_grid (self ?w))" by simp
  have c: "0 < length (inventory_grid (self ?w) ! 0)" by simp
  have n: "item_type (inventory_grid (self ?w) ! 0 ! 0) = NONE" by simp
  from store_on_empty[OF r c n, of "\<lparr>item_type = Kind 7, item_weight = (5::real)\<rparr>"]
  obtain w' where st: "store 0 0 \<lparr>item_type = Kind 7, item_weight = (5::real)\<rparr> ?w = Inr (True, w')"
    and g: "inventory_grid (self w') =
       (inventory_grid (self ?w))[0 := (inventory_grid (self ?w) ! 0)[0 := \<lparr>item_type = Kind 7, item_weight = (5::real)\<rparr>]]"
    and cnt: "item_count (self w') = item_count (self ?w) + 1"
    and wt: "weight (self w') = weight (self ?w) + item_weight \<lparr>item_type = Kind 7, item_weight = (5::real)\<rparr>"
    and eq: "equipped (self w') = equipped (self ?w)" and hp: "heap w' = heap ?w"
    by blast
  have "w' = \<lparr>heap = Map.empty,
      self = \<lparr>inventory_grid = [[\<lparr>item_type = Kind 7, item_weight = (5::real)\<rparr>, ?e], [?e, ?e]],
               equipped = nullptr, weight = 5, item_count = 1\<rparr>\<rparr>"
    using g cnt wt eq hp by (cases w', cases "self w'") simp
  with st show ?thesis by simp
qed

text \<open>
  C4. For a cell in range that holds an item whose type is not \<^verbatim>\<open>NONE\<close>, and for
  every item, \<^verbatim>\<open>store\<close> returns \<^verbatim>\<open>false\<close>, by a normal return and not by an
  exception, and the whole state (the weight, the count, every cell, the equipped
  pointer) is the state it was called in.
\<close>

theorem store_on_occupied:
  assumes "row < length (inventory_grid (self w))"
    and "col < length (inventory_grid (self w) ! row)"
    and "item_type (inventory_grid (self w) ! row ! col) \<noteq> NONE"
  shows "store row col pickup w = Inr (False, w)"
  using assms by (simp add: store_def)

text \<open>An instance: a second item into the cell filled above.\<close>

theorem store_on_occupied_witness:
  "store 0 0 \<lparr>item_type = Kind 3, item_weight = (1::real)\<rparr>
     \<lparr>heap = Map.empty,
      self = \<lparr>inventory_grid =
                 [[\<lparr>item_type = Kind 7, item_weight = (5::real)\<rparr>, \<lparr>item_type = NONE, item_weight = (0::real)\<rparr>],
                  [\<lparr>item_type = NONE, item_weight = (0::real)\<rparr>, \<lparr>item_type = NONE, item_weight = (0::real)\<rparr>]],
               equipped = nullptr, weight = 5, item_count = 1\<rparr>\<rparr> =
   Inr (False,
     \<lparr>heap = Map.empty,
      self = \<lparr>inventory_grid =
                 [[\<lparr>item_type = Kind 7, item_weight = (5::real)\<rparr>, \<lparr>item_type = NONE, item_weight = (0::real)\<rparr>],
                  [\<lparr>item_type = NONE, item_weight = (0::real)\<rparr>, \<lparr>item_type = NONE, item_weight = (0::real)\<rparr>]],
               equipped = nullptr, weight = 5, item_count = 1\<rparr>\<rparr>)"
proof -
  let ?e = "\<lparr>item_type = NONE, item_weight = (0::real)\<rparr>"
  let ?w = "\<lparr>heap = Map.empty,
      self = \<lparr>inventory_grid = [[\<lparr>item_type = Kind 7, item_weight = (5::real)\<rparr>, ?e], [?e, ?e]],
               equipped = nullptr, weight = 5, item_count = 1\<rparr>\<rparr>"
  have r: "0 < length (inventory_grid (self ?w))" by simp
  have c: "0 < length (inventory_grid (self ?w) ! 0)" by simp
  have n: "item_type (inventory_grid (self ?w) ! 0 ! 0) \<noteq> NONE" by simp
  from store_on_occupied[OF r c n] show ?thesis .
qed

subsection \<open>C5: construction with no arguments\<close>

text \<open>
  C5. An \<^verbatim>\<open>Inventory\<close> constructed with no arguments has a grid of exactly 10 rows
  of 10 items of type \<^verbatim>\<open>NONE\<close> each, weight 0, count 0 and a null equipped pointer,
  whatever the weight of a default-constructed item: the scan adds nothing to the
  initial 0.
\<close>

theorem default_construction:
  "Inventory_default d =
     \<lparr>inventory_grid = replicate 10 (replicate 10 (default_Item d)),
      equipped = nullptr, weight = 0, item_count = 0\<rparr> \<and>
   item_type (default_Item d) = NONE \<and>
   length (inventory_grid (Inventory_default d)) = 10 \<and>
   list_all (\<lambda>r. length r = 10 \<and> list_all (\<lambda>x. item_type x = NONE) r)
     (inventory_grid (Inventory_default d))"
proof -
  have "\<forall>r \<in> set (default_items d). \<forall>x \<in> set r. \<not> occupied x"
    by (auto simp: default_items_def default_Item_def occupied_def)
  then have "filter occupied (concat (default_items d)) = []"
    by (auto simp: filter_empty_conv)
  then have eq: "Inventory_default d =
     \<lparr>inventory_grid = replicate 10 (replicate 10 (default_Item d)),
      equipped = nullptr, weight = 0, item_count = 0\<rparr>"
    by (simp add: Inventory_default_def Inventory_ctor_eq) (simp add: default_items_def)
  have "item_type (default_Item d) = NONE" by (simp add: default_Item_def)
  then show ?thesis by (simp add: eq list_all_iff)
qed

text \<open>An instance: default items of weight 3 add nothing to the weight.\<close>

theorem default_construction_witness:
  "weight (Inventory_default (3::real)) = 0 \<and> item_count (Inventory_default (3::real)) = 0 \<and>
   equipped (Inventory_default (3::real)) = nullptr \<and>
   length (inventory_grid (Inventory_default (3::real))) = 10"
  using default_construction[of "3::real"] by simp

subsection \<open>C6, C7 and C10: the equipped pointer\<close>

text \<open>
  C6. \<^verbatim>\<open>equip\<close> puts its argument into the equipped pointer and changes nothing
  else: the grid, the weight and the count are the same, so \<^verbatim>\<open>getWeight\<close> and
  \<^verbatim>\<open>getCount\<close> return what they returned before the call, and the free store is the
  same, so the item equipped before is neither released nor changed.
\<close>

theorem equip_changes_only_equipped:
  "equip x w =
     \<lparr>heap = heap w,
      self = \<lparr>inventory_grid = inventory_grid (self w), equipped = x,
               weight = weight (self w), item_count = item_count (self w)\<rparr>\<rparr> \<and>
   fst (getWeight (equip x w)) = fst (getWeight w) \<and>
   fst (getCount (equip x w)) = fst (getCount w) \<and>
   fst (getItems (equip x w)) = fst (getItems w) \<and>
   heap (equip x w) = heap w"
  by (simp add: equip_def getWeight_def getCount_def getItems_def)

text \<open>An instance: the pointer 4 replaces the pointer 3; both objects stay live.\<close>

theorem equip_changes_only_equipped_witness:
  "equip (Some 4)
     \<lparr>heap = [3 \<mapsto> \<lparr>item_type = Kind 1, item_weight = (2::real)\<rparr>,
              4 \<mapsto> \<lparr>item_type = Kind 2, item_weight = (9::real)\<rparr>],
      self = \<lparr>inventory_grid = [[\<lparr>item_type = Kind 7, item_weight = (5::real)\<rparr>]],
               equipped = Some 3, weight = 5, item_count = 1\<rparr>\<rparr> =
     \<lparr>heap = [3 \<mapsto> \<lparr>item_type = Kind 1, item_weight = (2::real)\<rparr>,
              4 \<mapsto> \<lparr>item_type = Kind 2, item_weight = (9::real)\<rparr>],
      self = \<lparr>inventory_grid = [[\<lparr>item_type = Kind 7, item_weight = (5::real)\<rparr>]],
               equipped = Some 4, weight = 5, item_count = 1\<rparr>\<rparr>"
  using equip_changes_only_equipped
    [of "Some 4" "\<lparr>heap = [3 \<mapsto> \<lparr>item_type = Kind 1, item_weight = (2::real)\<rparr>,
              4 \<mapsto> \<lparr>item_type = Kind 2, item_weight = (9::real)\<rparr>],
      self = \<lparr>inventory_grid = [[\<lparr>item_type = Kind 7, item_weight = (5::real)\<rparr>]],
               equipped = Some 3, weight = 5, item_count = 1\<rparr>\<rparr>"]
  by simp

text \<open>
  C7. \<^verbatim>\<open>discardEquipped\<close> returns in the state it was called in when the equipped
  pointer is null. When the pointer is not null and owns an item (a live object of the
  free store), the call releases that item and sets the pointer to null. Whenever the
  call returns, \<^verbatim>\<open>getEquipped\<close> then returns null and the grid, the weight and the
  count are the same as before.
\<close>

theorem discardEquipped_releases:
  "(equipped (self w) = nullptr \<longrightarrow> discardEquipped w = Inr w) \<and>
   (\<forall>a obj. equipped (self w) = Some a \<and> heap w a = Some obj \<longrightarrow>
      discardEquipped w =
        Inr \<lparr>heap = (heap w)(a := None), self = (self w)\<lparr>equipped := nullptr\<rparr>\<rparr>) \<and>
   (\<forall>w'. discardEquipped w = Inr w' \<longrightarrow>
      fst (getEquipped w') = nullptr \<and>
      inventory_grid (self w') = inventory_grid (self w) \<and>
      weight (self w') = weight (self w) \<and>
      item_count (self w') = item_count (self w))"
  by (auto simp: discardEquipped_def delete_expr_def getEquipped_def
      split: option.splits sum.splits)

text \<open>An instance: the owned item at address 3 is released; a second call changes nothing.\<close>

theorem discardEquipped_releases_witness:
  "discardEquipped
     \<lparr>heap = [3 \<mapsto> \<lparr>item_type = Kind 1, item_weight = (2::real)\<rparr>],
      self = \<lparr>inventory_grid = [[\<lparr>item_type = Kind 7, item_weight = (5::real)\<rparr>]],
               equipped = Some 3, weight = 5, item_count = 1\<rparr>\<rparr> =
     Inr \<lparr>heap = Map.empty,
          self = \<lparr>inventory_grid = [[\<lparr>item_type = Kind 7, item_weight = (5::real)\<rparr>]],
                   equipped = nullptr, weight = 5, item_count = 1\<rparr>\<rparr> \<and>
   discardEquipped
     \<lparr>heap = Map.empty,
      self = \<lparr>inventory_grid = [[\<lparr>item_type = Kind 7, item_weight = (5::real)\<rparr>]],
               equipped = nullptr, weight = 5, item_count = 1\<rparr>\<rparr> =
     Inr \<lparr>heap = Map.empty,
          self = \<lparr>inventory_grid = [[\<lparr>item_type = Kind 7, item_weight = (5::real)\<rparr>]],
                   equipped = nullptr, weight = 5, item_count = 1\<rparr>\<rparr>"
proof -
  let ?i = "\<lparr>item_type = Kind 1, item_weight = (2::real)\<rparr>"
  let ?v = "\<lparr>inventory_grid = [[\<lparr>item_type = Kind 7, item_weight = (5::real)\<rparr>]],
               equipped = Some 3, weight = 5, item_count = 1\<rparr>"
  let ?w = "\<lparr>heap = [3 \<mapsto> ?i], self = ?v\<rparr>"
  let ?w' = "\<lparr>heap = Map.empty, self = ?v\<lparr>equipped := nullptr\<rparr>\<rparr>"
  have h: "equipped (self ?w) = Some 3 \<and> heap ?w 3 = Some ?i" by simp
  have n: "equipped (self ?w') = nullptr" by simp
  from discardEquipped_releases[of ?w] h
  have "discardEquipped ?w =
      Inr \<lparr>heap = (heap ?w)(3 := None), self = (self ?w)\<lparr>equipped := nullptr\<rparr>\<rparr>"
    by blast
  moreover from discardEquipped_releases[of ?w'] n have "discardEquipped ?w' = Inr ?w'"
    by blast
  ultimately show ?thesis by simp
qed

text \<open>
  C10. \<^verbatim>\<open>getEquipped\<close> after \<^verbatim>\<open>equip x\<close> returns \<open>x\<close>, for every pointer \<open>x\<close>,
  the null pointer included. \<^verbatim>\<open>getEquipped\<close> returns in the state it was called in:
  it changes neither the object nor the free store. \<^verbatim>\<open>equip\<close> of the null pointer
  clears the equipped pointer and leaves the free store, and so the item equipped
  before, as it was.
\<close>

theorem equip_getEquipped_roundtrip:
  "getEquipped (equip x w) = (x, equip x w) \<and>
   getEquipped w = (equipped (self w), w) \<and>
   heap (equip x w) = heap w \<and>
   fst (getEquipped (equip nullptr w)) = nullptr \<and>
   heap (equip nullptr w) = heap w"
  by (simp add: getEquipped_def equip_def)

text \<open>An instance: the null pointer is equipped over the pointer 3, whose object stays live.\<close>

theorem equip_getEquipped_roundtrip_witness:
  "getEquipped (equip nullptr
     \<lparr>heap = [3 \<mapsto> \<lparr>item_type = Kind 1, item_weight = (2::real)\<rparr>],
      self = \<lparr>inventory_grid = [], equipped = Some 3, weight = 0, item_count = 0\<rparr>\<rparr>) =
   (nullptr,
     \<lparr>heap = [3 \<mapsto> \<lparr>item_type = Kind 1, item_weight = (2::real)\<rparr>],
      self = \<lparr>inventory_grid = [], equipped = nullptr, weight = 0, item_count = 0\<rparr>\<rparr>)"
  using equip_getEquipped_roundtrip
    [of nullptr "\<lparr>heap = [3 \<mapsto> \<lparr>item_type = Kind 1, item_weight = (2::real)\<rparr>],
      self = \<lparr>inventory_grid = [], equipped = Some 3, weight = 0, item_count = 0\<rparr>\<rparr>"]
  by (simp add: equip_def)

subsection \<open>C8: the copy returned by getItems\<close>

text \<open>
  C8. What a caller has after \<^verbatim>\<open>getItems\<close> is a new vector object whose value is
  the whole grid, and the call leaves the container as it was. Whatever changes the caller
  then makes to that object, and however many, they succeed, the object has the value of
  the last one, and the container is the one before the call: \<^verbatim>\<open>at\<close>,
  \<^verbatim>\<open>getWeight\<close> and \<^verbatim>\<open>getCount\<close> return in it what they returned before.
\<close>

theorem getItems_copy_isolated:
  "read_vec (fst (call_getItems s)) (snd (call_getItems s)) =
     Inr (inventory_grid (self (container s))) \<and>
   container (snd (call_getItems s)) = container s \<and>
   (\<exists>s'. write_all (fst (call_getItems s)) gs (snd (call_getItems s)) = Inr s' \<and>
      read_vec (fst (call_getItems s)) s' =
        Inr (last (inventory_grid (self (container s)) # gs)) \<and>
      container s' = container s \<and>
      Inventory_at row col (container s') = Inventory_at row col (container s) \<and>
      getWeight (container s') = getWeight (container s) \<and>
      getCount (container s') = getCount (container s))"
proof -
  let ?v = "inventory_grid (self (container s))"
  let ?s1 = "\<lparr>container = container s, locals = locals s @ [?v]\<rparr>"
  let ?n = "length (locals s)"
  have call: "call_getItems s = (Local ?n, ?s1)"
    by (simp add: call_getItems_def getItems_def)
  have n: "?n < length (locals ?s1)" by simp
  from write_all_Local[OF n, of gs] obtain s' where
    w: "write_all (Local ?n) gs ?s1 = Inr s'" and
    c: "container s' = container ?s1" and
    l: "locals s' = (locals ?s1)[?n := last (locals ?s1 ! ?n # gs)]"
    by blast
  from l have "read_vec (Local ?n) s' = Inr (last (?v # gs))"
    by (simp add: subscript_def)
  with w c have "\<exists>s'. write_all (Local ?n) gs ?s1 = Inr s' \<and>
      read_vec (Local ?n) s' = Inr (last (?v # gs)) \<and>
      container s' = container s \<and>
      Inventory_at row col (container s') = Inventory_at row col (container s) \<and>
      getWeight (container s') = getWeight (container s) \<and>
      getCount (container s') = getCount (container s)"
    by auto
  moreover have "read_vec (Local ?n) ?s1 = Inr ?v"
    by (simp add: subscript_def)
  ultimately show ?thesis by (simp add: call)
qed

text \<open>
  An instance: the caller, which holds no vector yet, clears cell (0, 0) of the vector it
  got and then empties the vector; the container keeps its item.
\<close>

theorem getItems_copy_isolated_witness:
  "write_all
     (fst (call_getItems
        \<lparr>container =
           \<lparr>heap = Map.empty,
            self = \<lparr>inventory_grid = [[\<lparr>item_type = Kind 7, item_weight = (5::real)\<rparr>]],
                     equipped = nullptr, weight = 5, item_count = 1\<rparr>\<rparr>,
         locals = []\<rparr>))
     [[[\<lparr>item_type = NONE, item_weight = (0::real)\<rparr>]], []]
     (snd (call_getItems
        \<lparr>container =
           \<lparr>heap = Map.empty,
            self = \<lparr>inventory_grid = [[\<lparr>item_type = Kind 7, item_weight = (5::real)\<rparr>]],
                     equipped = nullptr, weight = 5, item_count = 1\<rparr>\<rparr>,
         locals = []\<rparr>)) =
   Inr \<lparr>container =
          \<lparr>heap = Map.empty,
           self = \<lparr>inventory_grid = [[\<lparr>item_type = Kind 7, item_weight = (5::real)\<rparr>]],
                    equipped = nullptr, weight = 5, item_count = 1\<rparr>\<rparr>,
        locals = [[]]\<rparr>"
proof -
  let ?s = "\<lparr>container =
           \<lparr>heap = Map.empty,
            self = \<lparr>inventory_grid = [[\<lparr>item_type = Kind 7, item_weight = (5::real)\<rparr>]],
                     equipped = nullptr, weight = 5, item_count = 1\<rparr>\<rparr>,
         locals = []\<rparr>"
  let ?gs = "[[[\<lparr>item_type = NONE, item_weight = (0::real)\<rparr>]], []]"
  from getItems_copy_isolated[of ?s ?gs 0 0]
  obtain s' where w: "write_all (fst (call_getItems ?s)) ?gs (snd (call_getItems ?s)) = Inr s'"
    and c: "container s' = container ?s"
    by blast
  have "write_all (fst (call_getItems ?s)) ?gs (snd (call_getItems ?s)) =
      Inr \<lparr>container = container ?s, locals = [[]]\<rparr>"
    by (simp add: call_getItems_def getItems_def)
  with w c show ?thesis by simp
qed

end
